theory Spec2Isabelle
  imports
    Complex_Main
    "HOL-Library.Multiset"
    "HOL-Library.Sublist"
    "HOL-Library.Char_ord"
    "HOL-Library.List_Lexorder"
begin

section \<open>Floating-point values as the source uses them\<close>

text \<open>
  A Python float is a binary64 number: a finite number, one of the two infinities, or
  NaN. A finite float is represented by the real number it denotes. An operation on
  finite floats gives the exact result rounded to the format, which may be an infinity
  when the exact result is out of range. The rounding is the parameter \<open>r\<close> of every
  operation below: \<open>r x\<close> is the float that the real \<open>x\<close> rounds to (for binary64, to
  nearest with ties to even). Nothing is assumed of \<open>r\<close> in the definitions, so a
  statement proved for every \<open>r\<close> holds for the arithmetic of the interpreter. The
  behaviour of the infinities and NaN is the IEEE one; the sign of zero is not modelled.
\<close>

datatype fl = NaN | NInf | Fin real | PInf

fun isnan :: "fl \<Rightarrow> bool" where
  "isnan NaN = True"
| "isnan _ = False"

fun fl_neg :: "fl \<Rightarrow> fl" where
  "fl_neg NaN = NaN"
| "fl_neg NInf = PInf"
| "fl_neg PInf = NInf"
| "fl_neg (Fin x) = Fin (- x)"

fun fl_add :: "(real \<Rightarrow> fl) \<Rightarrow> fl \<Rightarrow> fl \<Rightarrow> fl" where
  "fl_add r NaN _ = NaN"
| "fl_add r _ NaN = NaN"
| "fl_add r (Fin x) (Fin y) = r (x + y)"
| "fl_add r PInf NInf = NaN"
| "fl_add r NInf PInf = NaN"
| "fl_add r PInf _ = PInf"
| "fl_add r _ PInf = PInf"
| "fl_add r NInf _ = NInf"
| "fl_add r _ NInf = NInf"

text \<open>The product of an infinity with a finite number: its sign, or NaN at zero.\<close>

definition inf_times :: "fl \<Rightarrow> real \<Rightarrow> fl" where
  "inf_times i x = (if x = 0 then NaN else if 0 < x then i else fl_neg i)"

fun fl_mul :: "(real \<Rightarrow> fl) \<Rightarrow> fl \<Rightarrow> fl \<Rightarrow> fl" where
  "fl_mul r NaN _ = NaN"
| "fl_mul r _ NaN = NaN"
| "fl_mul r (Fin x) (Fin y) = r (x * y)"
| "fl_mul r (Fin x) i = inf_times i x"
| "fl_mul r i (Fin y) = inf_times i y"
| "fl_mul r PInf PInf = PInf"
| "fl_mul r NInf NInf = PInf"
| "fl_mul r PInf NInf = NInf"
| "fl_mul r NInf PInf = NInf"

text \<open>
  Division of numpy floats does not raise: a zero divisor gives an infinity or NaN
  (with a warning), an infinite divisor gives zero or NaN.
\<close>

fun fl_div :: "(real \<Rightarrow> fl) \<Rightarrow> fl \<Rightarrow> fl \<Rightarrow> fl" where
  "fl_div r NaN _ = NaN"
| "fl_div r _ NaN = NaN"
| "fl_div r (Fin x) (Fin y) =
     (if y = 0 then (if x = 0 then NaN else if 0 < x then PInf else NInf) else r (x / y))"
| "fl_div r (Fin x) _ = Fin 0"
| "fl_div r i (Fin y) = (if 0 \<le> y then i else fl_neg i)"
| "fl_div r _ _ = NaN"

fun fl_sqrt :: "(real \<Rightarrow> fl) \<Rightarrow> fl \<Rightarrow> fl" where
  "fl_sqrt r NaN = NaN"
| "fl_sqrt r NInf = NaN"
| "fl_sqrt r PInf = PInf"
| "fl_sqrt r (Fin x) = (if x < 0 then NaN else r (sqrt x))"

text \<open>
  Python's \<open><\<close> and \<open><=\<close> on floats compare the values exactly; every comparison with
  NaN is false.
\<close>

fun fl_lt :: "fl \<Rightarrow> fl \<Rightarrow> bool" where
  "fl_lt NaN _ = False"
| "fl_lt _ NaN = False"
| "fl_lt (Fin x) (Fin y) = (x < y)"
| "fl_lt NInf NInf = False"
| "fl_lt NInf _ = True"
| "fl_lt PInf _ = False"
| "fl_lt _ PInf = True"
| "fl_lt _ NInf = False"

fun fl_le :: "fl \<Rightarrow> fl \<Rightarrow> bool" where
  "fl_le NaN _ = False"
| "fl_le _ NaN = False"
| "fl_le a b = (a = b \<or> fl_lt a b)"

text \<open>A sum of floats, taken from the left, each partial sum rounded.\<close>

definition fl_sum :: "(real \<Rightarrow> fl) \<Rightarrow> fl list \<Rightarrow> fl" where
  "fl_sum r xs = foldl (fl_add r) (Fin 0) xs"

section \<open>models.py: the Paper record\<close>

record Paper =
  title :: string
  abstract :: string
  year :: int
  authors :: "string list"
  citation_count :: int
  url :: string
  paper_id :: string
  tldr :: "string option"
  embedding :: "fl list option"
  relevance_score :: fl

section \<open>embeddings.py: EmbeddingReranker\<close>

datatype error = ValueError | OverflowError | LLMError

text \<open>
  \<open>np.dot\<close> of two one-dimensional arrays raises ValueError when their lengths differ,
  and is the sum of the products otherwise. \<open>np.linalg.norm\<close> is the square root of the
  sum of the squares. (numpy may add the products of a long vector in another order,
  which changes a finite result in its last digits; no statement below depends on the
  order.)
\<close>

definition np_dot :: "(real \<Rightarrow> fl) \<Rightarrow> fl list \<Rightarrow> fl list \<Rightarrow> error + fl" where
  "np_dot r v1 v2 =
     (if length v1 \<noteq> length v2 then Inl ValueError
      else Inr (fl_sum r (map (\<lambda>(a, b). fl_mul r a b) (zip v1 v2))))"

definition np_norm :: "(real \<Rightarrow> fl) \<Rightarrow> fl list \<Rightarrow> fl" where
  "np_norm r v = fl_sqrt r (fl_sum r (map (\<lambda>a. fl_mul r a a) v))"

definition cosine_similarity :: "(real \<Rightarrow> fl) \<Rightarrow> fl list \<Rightarrow> fl list \<Rightarrow> error + fl" where
  "cosine_similarity r v1 v2 =
     (if list_ex isnan v1 \<or> list_ex isnan v2 then Inr (Fin 0)
      else case np_dot r v1 v2 of
        Inl e \<Rightarrow> Inl e
      | Inr dot_product \<Rightarrow>
          let norm_product = fl_mul r (np_norm r v1) (np_norm r v2)
          in if norm_product = Fin 0 then Inr (Fin 0)
             else Inr (fl_div r dot_product norm_product))"

text \<open>
  Python's \<open>a / b\<close> on two ints (here \<open>b\<close> is 100 or 10, never zero): the exact quotient
  rounded to a float, and OverflowError when that is out of the range of the floats.
\<close>

definition true_div :: "(real \<Rightarrow> fl) \<Rightarrow> int \<Rightarrow> int \<Rightarrow> error + fl" where
  "true_div r a b =
     (case r (real_of_int a / real_of_int b) of
        Fin q \<Rightarrow> Inr (Fin q)
      | _ \<Rightarrow> Inl OverflowError)"

text \<open>Lines 52 to 56 of \<open>rerank_papers\<close>: the three terms and their blend.\<close>

definition citation_score :: "(real \<Rightarrow> fl) \<Rightarrow> int \<Rightarrow> error + fl" where
  "citation_score r c =
     (case true_div r c 100 of
        Inl e \<Rightarrow> Inl e
      | Inr q \<Rightarrow> Inr (if fl_lt (Fin 1) q then Fin 1 else q))"

definition recency_score :: "(real \<Rightarrow> fl) \<Rightarrow> int \<Rightarrow> error + fl" where
  "recency_score r y = (if 2020 \<le> y then true_div r (y - 2020) 10 else Inr (Fin 0))"

definition blend :: "(real \<Rightarrow> fl) \<Rightarrow> fl \<Rightarrow> fl \<Rightarrow> fl \<Rightarrow> fl" where
  "blend r similarity citation recency =
     fl_add r (fl_add r (fl_mul r (r 0.6) similarity) (fl_mul r (r 0.25) citation))
              (fl_mul r (r 0.15) recency)"

text \<open>The text that is embedded for a paper: the title, a space, 500 characters of abstract.\<close>

definition paper_text :: "Paper \<Rightarrow> string" where
  "paper_text p = title p @ '' '' @ take 500 (abstract p)"

text \<open>
  The scoring loop over \<open>zip(papers, paper_embeddings)\<close>. An exception of
  \<open>_cosine_similarity\<close> or of a division leaves the loop and the function.
\<close>

fun score_papers ::
  "(real \<Rightarrow> fl) \<Rightarrow> fl list \<Rightarrow> (Paper \<times> fl list) list \<Rightarrow> error + Paper list" where
  "score_papers r query_embedding [] = Inr []"
| "score_papers r query_embedding ((paper, emb) # rest) =
     (case cosine_similarity r query_embedding emb of
        Inl e \<Rightarrow> Inl e
      | Inr similarity \<Rightarrow>
          (case citation_score r (citation_count paper) of
             Inl e \<Rightarrow> Inl e
           | Inr citation \<Rightarrow>
               (case recency_score r (year paper) of
                  Inl e \<Rightarrow> Inl e
                | Inr recency \<Rightarrow>
                    (case score_papers r query_embedding rest of
                       Inl e \<Rightarrow> Inl e
                     | Inr rest' \<Rightarrow>
                         Inr (paper\<lparr>embedding := Some emb,
                                    relevance_score := blend r similarity citation recency\<rparr>
                              # rest')))))"

text \<open>
  \<open>papers.sort(key=..., reverse=True)\<close>: Python's sort is stable, also when reversed, and
  compares keys with \<open><\<close> only. On keys that \<open><\<close> orders totally every stable sort gives
  the same list; it is written here as an insertion sort, where an element passes exactly
  the elements whose key is strictly greater. (With a NaN key Python does not specify the
  outcome; no statement below relies on the order this definition gives there.)
\<close>

fun insort_desc :: "Paper \<Rightarrow> Paper list \<Rightarrow> Paper list" where
  "insort_desc x [] = [x]"
| "insort_desc x (y # ys) =
     (if fl_lt (relevance_score x) (relevance_score y) then y # insort_desc x ys
      else x # y # ys)"

definition sort_desc :: "Paper list \<Rightarrow> Paper list" where
  "sort_desc ps = foldr insort_desc ps []"

text \<open>The slice \<open>xs[:k]\<close>: a negative \<open>k\<close> counts from the end.\<close>

definition slice_to :: "int \<Rightarrow> 'a list \<Rightarrow> 'a list" where
  "slice_to k xs = (if 0 \<le> k then take (nat k) xs else take (length xs - nat (- k)) xs)"

text \<open>
  \<open>rerank_papers\<close>. The embedding provider \<open>retriever.get_embedding\<close> is a parameter: a
  function from the text to its vector.
\<close>

definition rerank_papers ::
  "(real \<Rightarrow> fl) \<Rightarrow> (string \<Rightarrow> fl list) \<Rightarrow> string \<Rightarrow> Paper list \<Rightarrow> int
     \<Rightarrow> error + Paper list" where
  "rerank_papers r get_embedding query papers top_k =
     (if papers = [] then Inr []
      else
        let query_embedding = get_embedding query;
            paper_texts = map paper_text papers;
            paper_embeddings = map get_embedding paper_texts
        in case score_papers r query_embedding (zip papers paper_embeddings) of
             Inl e \<Rightarrow> Inl e
           | Inr scored \<Rightarrow> Inr (slice_to top_k (sort_desc scored)))"

section \<open>cache.py: ResultCache\<close>

text \<open>
  The serialised form of a paper, as \<open>cache_papers\<close> writes it: nine keys, without the
  embedding. \<open>from_dict\<close> is \<open>Paper(**paper_dict)\<close>, where the embedding takes its
  default.
\<close>

record paper_dict =
  d_title :: string
  d_abstract :: string
  d_year :: int
  d_authors :: "string list"
  d_citation_count :: int
  d_url :: string
  d_tldr :: "string option"
  d_relevance_score :: fl
  d_paper_id :: string

definition to_dict :: "Paper \<Rightarrow> paper_dict" where
  "to_dict paper =
     \<lparr>d_title = title paper, d_abstract = abstract paper, d_year = year paper,
      d_authors = authors paper, d_citation_count = citation_count paper,
      d_url = url paper, d_tldr = tldr paper,
      d_relevance_score = relevance_score paper, d_paper_id = paper_id paper\<rparr>"

definition from_dict :: "paper_dict \<Rightarrow> Paper" where
  "from_dict d =
     \<lparr>title = d_title d, abstract = d_abstract d, year = d_year d,
      authors = d_authors d, citation_count = d_citation_count d, url = d_url d,
      paper_id = d_paper_id d, tldr = d_tldr d, embedding = None,
      relevance_score = d_relevance_score d\<rparr>"

record papers_entry =
  pe_query :: string
  pe_papers :: "paper_dict list"

record answer_entry =
  ae_question :: string
  ae_paper_ids :: "string list"
  ae_answer :: string

text \<open>
  The two directories, one file per cache key, as maps from the key to the JSON document
  of the file. Reads and writes of the files are taken to succeed. The hash
  \<open>_get_cache_key\<close> (the MD5 hex digest) is a parameter \<open>md5\<close> of every operation.
\<close>

record ResultCache =
  papers_dir :: "string \<rightharpoonup> papers_entry"
  answers_dir :: "string \<rightharpoonup> answer_entry"

definition get_cached_papers ::
  "(string \<Rightarrow> string) \<Rightarrow> ResultCache \<Rightarrow> string \<Rightarrow> paper_dict list option" where
  "get_cached_papers md5 c query =
     (case papers_dir c (md5 query) of None \<Rightarrow> None | Some data \<Rightarrow> Some (pe_papers data))"

definition cache_papers ::
  "(string \<Rightarrow> string) \<Rightarrow> ResultCache \<Rightarrow> string \<Rightarrow> Paper list \<Rightarrow> ResultCache" where
  "cache_papers md5 c query papers =
     c\<lparr>papers_dir := (papers_dir c)
          (md5 query \<mapsto> \<lparr>pe_query = query, pe_papers = map to_dict papers\<rparr>)\<rparr>"

fun join :: "string \<Rightarrow> string list \<Rightarrow> string" where
  "join sep [] = []"
| "join sep [x] = x"
| "join sep (x # y # ys) = x @ sep @ join sep (y # ys)"

definition cache_input :: "string \<Rightarrow> string list \<Rightarrow> string" where
  "cache_input question paper_ids = question @ ''|'' @ join ''|'' (sort paper_ids)"

definition get_cached_answer ::
  "(string \<Rightarrow> string) \<Rightarrow> ResultCache \<Rightarrow> string \<Rightarrow> string list \<Rightarrow> string option" where
  "get_cached_answer md5 c question paper_ids =
     (case answers_dir c (md5 (cache_input question paper_ids)) of
        None \<Rightarrow> None
      | Some data \<Rightarrow> Some (ae_answer data))"

definition cache_answer ::
  "(string \<Rightarrow> string) \<Rightarrow> ResultCache \<Rightarrow> string \<Rightarrow> string list \<Rightarrow> string \<Rightarrow> ResultCache" where
  "cache_answer md5 c question paper_ids answer =
     c\<lparr>answers_dir := (answers_dir c)
          (md5 (cache_input question paper_ids) \<mapsto>
             \<lparr>ae_question = question, ae_paper_ids = paper_ids, ae_answer = answer\<rparr>)\<rparr>"

section \<open>retriever.py: SemanticScholarRetriever.search_papers\<close>

text \<open>
  A record of the search response. A field is \<open>None\<close> when the key is absent (for the
  abstract and the summary also when it is null). \<open>item_tldr\<close> is the summary object,
  with its \<open>text\<close> key inside.
\<close>

record raw_item =
  item_title :: "string option"
  item_abstract :: "string option"
  item_year :: "int option"
  item_authors :: "string option list option"
  item_citationCount :: "int option"
  item_url :: "string option"
  item_tldr :: "string option option"
  item_paperId :: "string option"

text \<open>
  What \<open>requests.get\<close> gives: a \<open>RequestException\<close>, or a response with its status code
  and the \<open>data\<close> key of its JSON body (\<open>None\<close> when the key is absent).
\<close>

datatype http_result = RequestException | Response int "raw_item list option"

definition get_or :: "'a option \<Rightarrow> 'a \<Rightarrow> 'a" where
  "get_or v d = (case v of None \<Rightarrow> d | Some x \<Rightarrow> x)"

definition has_abstract :: "raw_item \<Rightarrow> bool" where
  "has_abstract item =
     (case item_abstract item of
        None \<Rightarrow> False
      | Some a \<Rightarrow> a \<noteq> [] \<and> 100 < length (get_or (item_abstract item) []))"

definition paper_of_item :: "raw_item \<Rightarrow> Paper" where
  "paper_of_item item =
     \<lparr>title = get_or (item_title item) [],
      abstract = get_or (item_abstract item) [],
      year = get_or (item_year item) 0,
      authors = map (\<lambda>a. get_or a []) (get_or (item_authors item) []),
      citation_count = get_or (item_citationCount item) 0,
      url = get_or (item_url item) [],
      paper_id = get_or (item_paperId item) [],
      tldr = (case item_tldr item of None \<Rightarrow> None | Some t \<Rightarrow> t),
      embedding = None,
      relevance_score = Fin 0\<rparr>"

definition search_papers :: "(string \<Rightarrow> int \<Rightarrow> http_result) \<Rightarrow> string \<Rightarrow> int \<Rightarrow> Paper list" where
  "search_papers http_get query limit =
     (case http_get query limit of
        RequestException \<Rightarrow> []
      | Response status_code data \<Rightarrow>
          if status_code \<noteq> 200 then []
          else map paper_of_item (filter has_abstract (get_or data [])))"

section \<open>bot.py: EnhancedMedQueryBot.answer_question\<close>

text \<open>
  The collaborators of the pipeline that lie outside the repository's own logic, as
  functions of their arguments: the hash, the rounding of the float arithmetic, the
  embedding model, the HTTP request of the search, and the three calls of the
  synthesizer to the language model, which either return or raise.
\<close>

record env =
  md5 :: "string \<Rightarrow> string"
  rnd :: "real \<Rightarrow> fl"
  get_embedding :: "string \<Rightarrow> fl list"
  http_get :: "string \<Rightarrow> int \<Rightarrow> http_result"
  generate_search_queries :: "string \<Rightarrow> error + string list"
  detect_contradictions :: "Paper list \<Rightarrow> error + string"
  synthesize_findings :: "string \<Rightarrow> Paper list \<Rightarrow> string option \<Rightarrow> error + string"

text \<open>The calls a run makes, in order, so that a statement can say which were made.\<close>

datatype event =
    GenerateQueries
  | PapersCacheRead string
  | SearchApi string
  | PapersCacheWrite string
  | Sleep
  | Rerank
  | AnswerCacheRead
  | DetectContradictions
  | Synthesize
  | AnswerCacheWrite

text \<open>The values of the returned dictionary.\<close>

datatype pyval =
    PyNone
  | PyBool bool
  | PyInt int
  | PyStr string
  | PyStrList "string list"
  | PyPapers "Paper list"
  | PyDict "(string \<times> pyval) list"

text \<open>
  The state of the retrieval loop: \<open>all_papers\<close>, \<open>seen_paper_ids\<close>, the cache of the
  bot (\<open>None\<close> when the bot was built with \<open>use_cache=False\<close>) and the calls made so far.
\<close>

record retrieval =
  all_papers :: "Paper list"
  seen_paper_ids :: "string set"
  cache :: "ResultCache option"
  trace :: "event list"

text \<open>Lines 45 to 49: the papers of a cache hit are merged by \<open>paper_id\<close> alone.\<close>

fun merge_cached ::
  "paper_dict list \<Rightarrow> Paper list \<times> string set \<Rightarrow> Paper list \<times> string set" where
  "merge_cached [] acc = acc"
| "merge_cached (paper_dict # rest) (all, seen) =
     (if d_paper_id paper_dict \<notin> seen
      then merge_cached rest (all @ [from_dict paper_dict], insert (d_paper_id paper_dict) seen)
      else merge_cached rest (all, seen))"

text \<open>Lines 56 to 65: the papers of a fresh search, with the fallback to the title.\<close>

fun deduplicate ::
  "Paper list \<Rightarrow> Paper list \<times> string set \<times> Paper list
     \<Rightarrow> Paper list \<times> string set \<times> Paper list" where
  "deduplicate [] acc = acc"
| "deduplicate (paper # rest) (all, seen, new_papers) =
     (if paper_id paper \<noteq> [] \<and> paper_id paper \<notin> seen
      then deduplicate rest (all @ [paper], insert (paper_id paper) seen, new_papers @ [paper])
      else if paper_id paper = [] \<and> title paper \<notin> set (map title all)
      then deduplicate rest (all @ [paper], seen, new_papers @ [paper])
      else deduplicate rest (all, seen, new_papers))"

text \<open>Lines 52 to 71: a query that is not served from the cache.\<close>

definition fetch_fresh :: "env \<Rightarrow> int \<Rightarrow> string \<Rightarrow> retrieval \<Rightarrow> retrieval" where
  "fetch_fresh E papers_per_query query st =
     (let papers = search_papers (http_get E) query papers_per_query;
          (all, seen, new_papers) =
             deduplicate papers (all_papers st, seen_paper_ids st, [])
      in case cache st of
           None \<Rightarrow>
             \<lparr>all_papers = all, seen_paper_ids = seen, cache = None,
              trace = trace st @ [SearchApi query, Sleep]\<rparr>
         | Some c \<Rightarrow>
             if new_papers \<noteq> []
             then \<lparr>all_papers = all, seen_paper_ids = seen,
                   cache = Some (cache_papers (md5 E) c query new_papers),
                   trace = trace st @ [SearchApi query, PapersCacheWrite query, Sleep]\<rparr>
             else \<lparr>all_papers = all, seen_paper_ids = seen, cache = Some c,
                   trace = trace st @ [SearchApi query, Sleep]\<rparr>)"

text \<open>Lines 40 to 71: one round of the loop over the queries.\<close>

definition query_step :: "env \<Rightarrow> bool \<Rightarrow> int \<Rightarrow> retrieval \<Rightarrow> string \<Rightarrow> retrieval" where
  "query_step E use_cached papers_per_query st query =
     (case (if use_cached then cache st else None) of
        None \<Rightarrow> fetch_fresh E papers_per_query query st
      | Some c \<Rightarrow>
          let st1 = st\<lparr>trace := trace st @ [PapersCacheRead query]\<rparr>
          in (case get_cached_papers (md5 E) c query of
                None \<Rightarrow> fetch_fresh E papers_per_query query st1
              | Some cached_papers \<Rightarrow>
                  if cached_papers = [] then fetch_fresh E papers_per_query query st1
                  else
                    let (all, seen) =
                          merge_cached cached_papers (all_papers st1, seen_paper_ids st1)
                    in st1\<lparr>all_papers := all, seen_paper_ids := seen\<rparr>))"

definition retrieve :: "env \<Rightarrow> bool \<Rightarrow> int \<Rightarrow> string list \<Rightarrow> retrieval \<Rightarrow> retrieval" where
  "retrieve E use_cached papers_per_query queries st =
     foldl (query_step E use_cached papers_per_query) st queries"

text \<open>Lines 109 to 134: contradiction detection, synthesis, the write of the answer.\<close>

definition synthesize ::
  "env \<Rightarrow> retrieval \<Rightarrow> string \<Rightarrow> string list \<Rightarrow> bool \<Rightarrow> Paper list \<Rightarrow> string list
     \<Rightarrow> (error + (string \<times> pyval) list) \<times> ResultCache option \<times> event list" where
  "synthesize E st user_question queries detect top_papers paper_ids =
     (let (contradictions, tr1) =
            (if detect \<and> 2 \<le> length top_papers
             then (case detect_contradictions E top_papers of
                     Inl e \<Rightarrow> Inl e
                   | Inr analysis \<Rightarrow> Inr (Some analysis),
                   trace st @ [DetectContradictions])
             else (Inr None, trace st))
      in case contradictions of
           Inl e \<Rightarrow> (Inl e, cache st, tr1)
         | Inr contradictions \<Rightarrow>
             (case synthesize_findings E user_question top_papers contradictions of
                Inl e \<Rightarrow> (Inl e, cache st, tr1 @ [Synthesize])
              | Inr answer \<Rightarrow>
                  let (c, tr2) =
                        (case cache st of
                           None \<Rightarrow> (None, tr1 @ [Synthesize])
                         | Some c \<Rightarrow>
                             if paper_ids \<noteq> []
                             then (Some (cache_answer (md5 E) c user_question paper_ids answer),
                                   tr1 @ [Synthesize, AnswerCacheWrite])
                             else (Some c, tr1 @ [Synthesize]))
                  in (Inr [(''question'', PyStr user_question),
                           (''queries_used'', PyStrList queries),
                           (''papers_analyzed'', PyInt (int (length (all_papers st)))),
                           (''papers_used'', PyInt (int (length top_papers))),
                           (''papers'', PyPapers top_papers),
                           (''contradictions'',
                              (case contradictions of
                                 None \<Rightarrow> PyNone
                               | Some analysis \<Rightarrow> PyDict [(''analysis'', PyStr analysis)])),
                           (''answer'', PyStr answer),
                           (''from_cache'', PyBool False)],
                      c, tr2)))"

text \<open>Lines 91 to 107: the lookup of a cached answer, then the rest of the run.\<close>

definition answer_from ::
  "env \<Rightarrow> retrieval \<Rightarrow> string \<Rightarrow> string list \<Rightarrow> bool \<Rightarrow> bool \<Rightarrow> Paper list
     \<Rightarrow> (error + (string \<times> pyval) list) \<times> ResultCache option \<times> event list" where
  "answer_from E st user_question queries detect use_cached top_papers =
     (let paper_ids = map paper_id (filter (\<lambda>p. paper_id p \<noteq> []) top_papers)
      in case (if use_cached \<and> paper_ids \<noteq> [] then cache st else None) of
           None \<Rightarrow> synthesize E st user_question queries detect top_papers paper_ids
         | Some c \<Rightarrow>
             let st1 = st\<lparr>trace := trace st @ [AnswerCacheRead]\<rparr>
             in (case get_cached_answer (md5 E) c user_question paper_ids of
                  None \<Rightarrow> synthesize E st1 user_question queries detect top_papers paper_ids
                | Some cached_answer \<Rightarrow>
                    if cached_answer = []
                    then synthesize E st1 user_question queries detect top_papers paper_ids
                    else (Inr [(''question'', PyStr user_question),
                               (''queries_used'', PyStrList queries),
                               (''papers_analyzed'', PyInt (int (length (all_papers st)))),
                               (''papers_used'', PyInt (int (length top_papers))),
                               (''papers'', PyPapers top_papers),
                               (''contradictions'', PyNone),
                               (''answer'', PyStr cached_answer),
                               (''from_cache'', PyBool True)],
                          cache st1, trace st1)))"

text \<open>
  \<open>answer_question\<close>. The result is the returned dictionary or the exception raised,
  together with the cache and the calls made: both outlast an exception.
\<close>

definition answer_question ::
  "env \<Rightarrow> ResultCache option \<Rightarrow> string \<Rightarrow> int \<Rightarrow> bool \<Rightarrow> int \<Rightarrow> bool
     \<Rightarrow> (error + (string \<times> pyval) list) \<times> ResultCache option \<times> event list" where
  "answer_question E bot_cache user_question papers_per_query detect top_k_papers use_cached =
     (case generate_search_queries E user_question of
        Inl e \<Rightarrow> (Inl e, bot_cache, [GenerateQueries])
      | Inr queries \<Rightarrow>
          let st = retrieve E use_cached papers_per_query queries
                     \<lparr>all_papers = [], seen_paper_ids = {}, cache = bot_cache,
                      trace = [GenerateQueries]\<rparr>
          in if all_papers st = []
             then (Inr [(''question'', PyStr user_question),
                        (''queries_used'', PyStrList queries),
                        (''papers_analyzed'', PyInt 0),
                        (''papers_used'', PyInt 0),
                        (''papers'', PyPapers []),
                        (''contradictions'', PyNone),
                        (''answer'',
                           PyStr ''No papers found. Try rephrasing your question or broadening the scope.'')],
                   cache st, trace st)
             else
               (case rerank_papers (rnd E) (get_embedding E) user_question (all_papers st)
                       top_k_papers of
                  Inl e \<Rightarrow> (Inl e, cache st, trace st @ [Rerank])
                | Inr top_papers \<Rightarrow>
                    answer_from E (st\<lparr>trace := trace st @ [Rerank]\<rparr>) user_question queries
                      detect use_cached top_papers))"

section \<open>Auxiliary notions and concrete inputs\<close>

text \<open>The calls that the retrieval loop makes.\<close>

definition retrieval_events :: "event set" where
  "retrieval_events =
     range PapersCacheRead \<union> range SearchApi \<union> range PapersCacheWrite \<union> {Sleep}"

text \<open>
  What the bounds on the score use of the rounding: it is monotone, it leaves a float as
  it is, it commutes with negation, and 0, 1 and 1/4 are floats. Rounding to nearest in
  binary64 has these properties. \<open>rounds_down r x\<close> says that \<open>x\<close> rounds to a finite float
  that is not above it; in binary64 this holds of the literals 0.6, 0.15 and 0.85, whose
  floats are 0.59999999999999997780, 0.14999999999999999445 and 0.84999999999999997780.
\<close>

definition rounding :: "(real \<Rightarrow> fl) \<Rightarrow> bool" where
  "rounding r \<longleftrightarrow>
     (\<forall>x y. x \<le> y \<longrightarrow> fl_le (r x) (r y))
     \<and> (\<forall>x y. r x = Fin y \<longrightarrow> r y = Fin y)
     \<and> (\<forall>x. r (- x) = fl_neg (r x))
     \<and> r 0 = Fin 0 \<and> r 1 = Fin 1 \<and> r (1/4) = Fin (1/4)"

definition rounds_down :: "(real \<Rightarrow> fl) \<Rightarrow> real \<Rightarrow> bool" where
  "rounds_down r x \<longleftrightarrow> (\<exists>y. r x = Fin y \<and> y \<le> x)"

text \<open>
  Concrete inputs on which the functions are evaluated below.

  The arithmetic \<open>ranged\<close> has the range of binary64 and does not round inside it. The
  evaluations below use it where binary64 does not round either (sums and products of
  0, 1/4 and 1, and overflow beyond \<open>2 ^ 1024\<close>), so they show the values of the
  interpreter; the exceptions are the recency term 3/10 and the score 23/20 of the paper
  of the year 2040, which in binary64 are the floats next to 0.3 and 1.15.

  The environment has the identity as its hash (any hash without a collision on the
  queries used behaves the same), the one-dimensional zero vector as every embedding,
  and a language model that gives two queries and texts built from its arguments.
\<close>

definition ranged :: "real \<Rightarrow> fl" where
  "ranged x = (if 2 ^ 1024 \<le> x then PInf else if x \<le> - (2 ^ 1024) then NInf else Fin x)"

definition zero_embedding :: "string \<Rightarrow> fl list" where
  "zero_embedding text = [Fin 0]"

definition unit_embedding :: "string \<Rightarrow> fl list" where
  "unit_embedding text = [Fin 1]"

definition big_embedding :: "string \<Rightarrow> fl list" where
  "big_embedding text = [Fin (2 ^ 700)]"

definition uneven_embedding :: "string \<Rightarrow> fl list" where
  "uneven_embedding text = (if text = ''question'' then [Fin 0] else [Fin 0, Fin 0])"

definition sample_paper :: "string \<Rightarrow> int \<Rightarrow> int \<Rightarrow> Paper" where
  "sample_paper t c y =
     \<lparr>title = t, abstract = ''Abstract'', year = y, authors = [''Ada''],
      citation_count = c, url = ''u'', paper_id = t, tldr = None,
      embedding = None, relevance_score = Fin 0\<rparr>"

definition empty_cache :: ResultCache where
  "empty_cache = \<lparr>papers_dir = Map.empty, answers_dir = Map.empty\<rparr>"

definition item :: "string \<Rightarrow> string \<Rightarrow> raw_item" where
  "item pid t =
     \<lparr>item_title = Some t, item_abstract = Some (replicate 101 CHR ''a''),
      item_year = Some 2021, item_authors = Some [Some ''Ada''],
      item_citationCount = Some 10, item_url = Some ''u'', item_tldr = None,
      item_paperId = Some pid\<rparr>"

definition short_item :: raw_item where
  "short_item =
     \<lparr>item_title = Some ''Short'', item_abstract = Some (replicate 50 CHR ''a''),
      item_year = Some 2021, item_authors = Some [], item_citationCount = Some 0,
      item_url = None, item_tldr = None, item_paperId = Some ''S''\<rparr>"

definition plain_item :: "string \<Rightarrow> int \<Rightarrow> raw_item" where
  "plain_item t c =
     \<lparr>item_title = Some t, item_abstract = Some (replicate 101 CHR ''a''),
      item_year = Some 2020, item_authors = Some [Some ''Ada''],
      item_citationCount = Some c, item_url = Some ''u'', item_tldr = None,
      item_paperId = None\<rparr>"

definition fixed_env :: "(string \<Rightarrow> int \<Rightarrow> http_result) \<Rightarrow> env" where
  "fixed_env search =
     \<lparr>md5 = (\<lambda>text. text), rnd = ranged, get_embedding = zero_embedding,
      http_get = search,
      generate_search_queries = (\<lambda>question. Inr [''q1'', ''q2'']),
      detect_contradictions = (\<lambda>papers. Inr (''Compared: '' @ concat (map title papers))),
      synthesize_findings =
        (\<lambda>question papers contradictions.
           Inr (''Answer to '' @ question @ '' from '' @ concat (map title papers)
                @ (case contradictions of None \<Rightarrow> [] | Some a \<Rightarrow> '' / '' @ a)))\<rparr>"

definition start :: "ResultCache option \<Rightarrow> retrieval" where
  "start c = \<lparr>all_papers = [], seen_paper_ids = {}, cache = c, trace = []\<rparr>"

definition search_none :: "string \<Rightarrow> int \<Rightarrow> http_result" where
  "search_none q l = Response 200 (Some [])"

definition search_mixed :: "string \<Rightarrow> int \<Rightarrow> http_result" where
  "search_mixed q l = Response 200 (Some [item ''A'' ''Paper A'', short_item])"

definition search_failing :: "string \<Rightarrow> int \<Rightarrow> http_result" where
  "search_failing q l = (if q = ''q1'' then RequestException else Response 503 None)"

definition search_shared :: "string \<Rightarrow> int \<Rightarrow> http_result" where
  "search_shared q l =
     (if q = ''q1'' then Response 200 (Some [item ''A'' ''Paper A''])
      else Response 200 (Some [item ''A'' ''Paper A'', item ''B'' ''Paper B'']))"

definition search_no_ids :: "string \<Rightarrow> int \<Rightarrow> http_result" where
  "search_no_ids q l = Response 200 (Some [item [] ''First'', item [] ''Second''])"

definition search_plain :: "string \<Rightarrow> int \<Rightarrow> http_result" where
  "search_plain q l = Response 200 (Some [plain_item ''First'' 0, plain_item ''Second'' 100])"

definition paper_with_embedding :: Paper where
  "paper_with_embedding =
     \<lparr>title = ''T'', abstract = ''A'', year = 2021, authors = [''Ada''],
      citation_count = 3, url = ''u'', paper_id = ''p1'', tldr = None,
      embedding = Some [Fin 1], relevance_score = Fin 0\<rparr>"

section \<open>Helper lemmas\<close>

lemmas run_defs =
  empty_cache_def item_def short_item_def plain_item_def fixed_env_def start_def
  retrieve_def query_step_def fetch_fresh_def search_papers_def has_abstract_def
  paper_of_item_def get_or_def get_cached_papers_def cache_papers_def to_dict_def
  from_dict_def Let_def

lemmas rerank_defs =
  rerank_papers_def cosine_similarity_def np_dot_def np_norm_def fl_sum_def blend_def
  citation_score_def recency_score_def true_div_def sort_desc_def slice_to_def
  paper_text_def inf_times_def ranged_def zero_embedding_def sample_paper_def unit_embedding_def big_embedding_def
  uneven_embedding_def Let_def

subsection \<open>The guards of the cosine similarity\<close>

lemma cosine_similarity_nan:
  "list_ex isnan v1 \<or> list_ex isnan v2 \<Longrightarrow> cosine_similarity r v1 v2 = Inr (Fin 0)"
  by (simp add: cosine_similarity_def)

lemma cosine_similarity_zero_norm:
  assumes "\<not> list_ex isnan v1" "\<not> list_ex isnan v2" "length v1 = length v2"
      and "np_norm r v1 = Fin a" "np_norm r v2 = Fin b" "a = 0 \<or> b = 0" "r 0 = Fin 0"
  shows "cosine_similarity r v1 v2 = Inr (Fin 0)"
  using assms by (auto simp: cosine_similarity_def np_dot_def Let_def)

lemma inf_quotient: "fl_mul r PInf n \<noteq> Fin 0 \<and> fl_div r PInf (fl_mul r PInf n) = NaN"
  by (cases n) (auto simp: inf_times_def)

subsection \<open>Scoring and sorting\<close>

lemma score_papers_shape:
  "score_papers r qe (zip ps (map f ps)) = Inr scored \<Longrightarrow>
   map (\<lambda>p. p\<lparr>embedding := None, relevance_score := Fin 0\<rparr>) scored
     = map (\<lambda>p. p\<lparr>embedding := None, relevance_score := Fin 0\<rparr>) ps"
proof (induction ps arbitrary: scored)
  case Nil
  then show ?case by simp
next
  case (Cons p ps)
  then show ?case
    by (auto split: sum.splits)
qed

lemma score_papers_member:
  "score_papers r qe (zip ps (map f ps)) = Inr scored \<Longrightarrow> p' \<in> set scored \<Longrightarrow>
   \<exists>p \<in> set ps. \<exists>sim cit rec.
      cosine_similarity r qe (f p) = Inr sim
    \<and> citation_score r (citation_count p) = Inr cit
    \<and> recency_score r (year p) = Inr rec
    \<and> p' = p\<lparr>embedding := Some (f p), relevance_score := blend r sim cit rec\<rparr>"
proof (induction ps arbitrary: scored)
  case Nil
  then show ?case by simp
next
  case (Cons p ps)
  then show ?case
    by (auto split: sum.splits)
qed

lemma filter_insort_desc:
  "filter (\<lambda>p. relevance_score p = s) (insort_desc x xs)
     = filter (\<lambda>p. relevance_score p = s) (x # xs)"
proof (induction xs)
  case Nil
  show ?case by simp
next
  case (Cons y ys)
  have "fl_lt (relevance_score x) (relevance_score y)
          \<Longrightarrow> relevance_score x \<noteq> relevance_score y"
    by (cases "relevance_score x"; cases "relevance_score y"; simp)
  then show ?case using Cons by auto
qed

lemma filter_sort_desc:
  "filter (\<lambda>p. relevance_score p = s) (sort_desc xs) = filter (\<lambda>p. relevance_score p = s) xs"
  by (induction xs) (simp_all add: sort_desc_def filter_insort_desc)

lemma set_insort_desc: "set (insort_desc x xs) = insert x (set xs)"
  by (induction xs) auto

lemma length_insort_desc: "length (insort_desc x xs) = Suc (length xs)"
  by (induction xs) auto

lemma length_sort_desc: "length (sort_desc xs) = length xs"
  by (induction xs) (simp_all add: sort_desc_def length_insort_desc)

lemma set_sort_desc: "set (sort_desc xs) = set xs"
  by (induction xs) (simp_all add: sort_desc_def set_insort_desc)

lemma fl_le_total: "\<not> isnan a \<Longrightarrow> \<not> isnan b \<Longrightarrow> fl_le a b = (\<not> fl_lt b a)"
  by (cases a; cases b; auto)

lemma fl_le_trans: "fl_le a b \<Longrightarrow> fl_le b c \<Longrightarrow> fl_le a c"
  by (cases a; cases b; cases c; auto)

lemma fl_lt_le: "fl_lt a b \<Longrightarrow> fl_le a b"
  by (cases a; cases b; auto)

lemma sorted_insort_desc:
  assumes "\<not> isnan (relevance_score x)" "\<forall>p \<in> set xs. \<not> isnan (relevance_score p)"
    "sorted_wrt (\<lambda>a b. fl_le (relevance_score b) (relevance_score a)) xs"
  shows "sorted_wrt (\<lambda>a b. fl_le (relevance_score b) (relevance_score a)) (insort_desc x xs)"
  using assms
proof (induction xs)
  case Nil
  show ?case by simp
next
  case (Cons y ys)
  show ?case
  proof (cases "fl_lt (relevance_score x) (relevance_score y)")
    case True
    then show ?thesis using Cons by (auto simp: set_insort_desc fl_lt_le)
  next
    case False
    then have yx: "fl_le (relevance_score y) (relevance_score x)"
      using Cons.prems fl_le_total by simp
    have "\<forall>z \<in> set ys. fl_le (relevance_score z) (relevance_score x)"
      using Cons.prems(3) yx fl_le_trans by auto
    then show ?thesis using False yx Cons.prems(3) by simp
  qed
qed

lemma sorted_sort_desc:
  "\<forall>p \<in> set xs. \<not> isnan (relevance_score p) \<Longrightarrow>
   sorted_wrt (\<lambda>a b. fl_le (relevance_score b) (relevance_score a)) (sort_desc xs)"
proof (induction xs)
  case Nil
  show ?case by (simp add: sort_desc_def)
next
  case (Cons x xs)
  have "sort_desc (x # xs) = insort_desc x (sort_desc xs)" by (simp add: sort_desc_def)
  then show ?case
    using Cons sorted_insort_desc[of x "sort_desc xs"] by (simp add: set_sort_desc)
qed

lemma slice_to_nonneg: "0 \<le> k \<Longrightarrow> slice_to k xs = take (nat k) xs"
  by (simp add: slice_to_def)

lemma set_slice_to: "set (slice_to k xs) \<subseteq> set xs"
  by (auto simp: slice_to_def dest: in_set_takeD)

lemma rerank_papers_scored:
  assumes "papers \<noteq> []" "rerank_papers r ge q papers k = Inr out"
  shows "\<exists>scored. score_papers r (ge q) (zip papers (map ge (map paper_text papers))) = Inr scored
           \<and> out = slice_to k (sort_desc scored)"
  using assms by (auto simp: rerank_papers_def Let_def split: sum.splits)

subsection \<open>Roundings\<close>

lemma rounding_between:
  assumes "rounding r" "r lo = Fin lo'" "r hi = Fin hi'" "lo \<le> x" "x \<le> hi"
  shows "\<exists>y. r x = Fin y \<and> lo' \<le> y \<and> y \<le> hi'"
proof -
  have a: "fl_le (Fin lo') (r x)" using assms(1,2,4) unfolding rounding_def by metis
  have b: "fl_le (r x) (Fin hi')" using assms(1,3,5) unfolding rounding_def by metis
  show ?thesis using a b by (cases "r x") auto
qed

lemma rounding_fixes: "rounding r \<Longrightarrow> r x = Fin y \<Longrightarrow> r y = Fin y \<and> r (- y) = Fin (- y)"
  unfolding rounding_def by (metis fl_neg.simps(4))

lemma rounding_points: "rounding r \<Longrightarrow> r 0 = Fin 0 \<and> r 1 = Fin 1 \<and> r (1/4) = Fin (1/4)"
  unfolding rounding_def by simp

lemma rounds_down_nonneg:
  assumes "rounding r" "rounds_down r x" "0 \<le> x"
  shows "\<exists>k. r x = Fin k \<and> 0 \<le> k \<and> k \<le> x \<and> r k = Fin k \<and> r (- k) = Fin (- k)"
proof -
  obtain k where k: "r x = Fin k" "k \<le> x" using assms(2) unfolding rounds_down_def by blast
  have "\<exists>y. r x = Fin y \<and> 0 \<le> y \<and> y \<le> k"
    using rounding_between[OF assms(1) _ k(1) assms(3) order_refl] rounding_points[OF assms(1)]
    by blast
  then have "0 \<le> k" using k(1) by auto
  then show ?thesis using k rounding_fixes[OF assms(1) k(1)] by blast
qed

lemma blend_bounds:
  assumes R: "rounding r"
      and d6: "rounds_down r 0.6" and d15: "rounds_down r 0.15" and d85: "rounds_down r 0.85"
      and s: "-1 \<le> s" "s \<le> 1" and cm: "0 \<le> cm" "cm \<le> 1" and rq: "0 \<le> rq" "rq \<le> 1"
  shows "\<exists>ct rt v.
           fl_mul r (r 0.25) (Fin cm) = Fin ct \<and> 0 \<le> ct \<and> ct \<le> 0.25
         \<and> fl_mul r (r 0.15) (Fin rq) = Fin rt \<and> 0 \<le> rt \<and> rt \<le> 0.15
         \<and> blend r (Fin s) (Fin cm) (Fin rq) = Fin v \<and> -0.6 \<le> v \<and> v \<le> 1"
proof -
  note P = rounding_points[OF R]
  obtain k6 where k6: "r 0.6 = Fin k6" "0 \<le> k6" "k6 \<le> 0.6" "r k6 = Fin k6" "r (- k6) = Fin (- k6)"
    using rounds_down_nonneg[OF R d6] by auto
  obtain k15 where k15: "r 0.15 = Fin k15" "0 \<le> k15" "k15 \<le> 0.15" "r k15 = Fin k15"
    using rounds_down_nonneg[OF R d15] by auto
  obtain k85 where k85: "r 0.85 = Fin k85" "k85 \<le> 0.85"
    using rounds_down_nonneg[OF R d85] by auto
  have q: "r 0.25 = Fin (1/4)" using P by simp
  \<comment> \<open>the similarity term\<close>
  have "k6 * s \<le> k6 * 1" using s(2) k6(2) by (rule mult_left_mono)
  moreover have "k6 * (-1) \<le> k6 * s" using s(1) k6(2) by (rule mult_left_mono)
  ultimately have "- k6 \<le> k6 * s" "k6 * s \<le> k6" by simp_all
  then obtain a where a: "r (k6 * s) = Fin a" "- k6 \<le> a" "a \<le> k6"
    using rounding_between[OF R k6(5) k6(4)] by blast
  \<comment> \<open>the citation term\<close>
  have "0 \<le> 1/4 * cm" "1/4 * cm \<le> 1/4" using cm by simp_all
  then obtain ct where ct: "r (1/4 * cm) = Fin ct" "0 \<le> ct" "ct \<le> 1/4"
    using rounding_between[of r 0 0 "1/4" "1/4" "1/4 * cm"] R P by blast
  \<comment> \<open>the recency term\<close>
  have "k15 * rq \<le> k15 * 1" using rq(2) k15(2) by (rule mult_left_mono)
  moreover have "0 \<le> k15 * rq" using rq(1) k15(2) by simp
  ultimately have "0 \<le> k15 * rq" "k15 * rq \<le> k15" by simp_all
  then obtain rt where rt: "r (k15 * rq) = Fin rt" "0 \<le> rt" "rt \<le> k15"
    using rounding_between[of r 0 0 k15 k15 "k15 * rq"] R P k15(4) by blast
  \<comment> \<open>the two sums\<close>
  have "- k6 \<le> a + ct" "a + ct \<le> 0.85" using a ct k6(3) by simp_all
  then obtain t where t: "r (a + ct) = Fin t" "- k6 \<le> t" "t \<le> k85"
    using rounding_between[OF R k6(5) k85(1)] by blast
  have "- k6 \<le> t + rt" "t + rt \<le> 1" using t rt k85(2) k15(3) by simp_all
  then obtain v where v: "r (t + rt) = Fin v" "- k6 \<le> v" "v \<le> 1"
    using rounding_between[of r "- k6" "- k6" 1 1 "t + rt"] R P k6(5) by blast
  have b: "blend r (Fin s) (Fin cm) (Fin rq) = Fin v"
    using k6(1) k15(1) q a(1) ct(1) rt(1) t(1) v(1) by (simp add: blend_def)
  have "fl_mul r (r 0.25) (Fin cm) = Fin ct" using q ct(1) by simp
  moreover have "fl_mul r (r 0.15) (Fin rq) = Fin rt" using k15(1) rt(1) by simp
  moreover have "ct \<le> 0.25" using ct(3) by simp
  moreover have "rt \<le> 0.15" using rt(3) k15(3) by simp
  moreover have "-0.6 \<le> v" using v(2) k6(3) by simp
  ultimately show ?thesis using b ct(2) rt(2) v(3) by blast
qed

lemma citation_score_range:
  assumes "rounding r" "0 \<le> c" "citation_score r c = Inr cit"
  shows "\<exists>cq. r (real_of_int c / 100) = Fin cq \<and> cit = Fin (min cq 1)
            \<and> 0 \<le> min cq 1 \<and> min cq 1 \<le> 1"
proof -
  obtain cq where cq: "r (real_of_int c / 100) = Fin cq"
    using assms(3) by (auto simp: citation_score_def true_div_def split: fl.splits)
  have mono: "\<And>x y. x \<le> y \<Longrightarrow> fl_le (r x) (r y)"
    using assms(1) unfolding rounding_def by blast
  have "0 \<le> real_of_int c / 100" using assms(2) by simp
  then have "fl_le (r 0) (r (real_of_int c / 100))" by (rule mono)
  then have "0 \<le> cq" using cq rounding_points[OF assms(1)] by auto
  moreover have "cit = Fin (min cq 1)"
    using assms(3) cq by (auto simp: citation_score_def true_div_def min_def)
  ultimately show ?thesis using cq by auto
qed

lemma recency_score_range:
  assumes "rounding r" "2020 \<le> y" "y \<le> 2030"
  shows "\<exists>rq. recency_score r y = Inr (Fin rq) \<and> r (real_of_int (y - 2020) / 10) = Fin rq
            \<and> 0 \<le> rq \<and> rq \<le> 1"
proof -
  have "0 \<le> real_of_int (y - 2020) / 10" "real_of_int (y - 2020) / 10 \<le> 1"
    using assms(2,3) by simp_all
  then obtain rq where "r (real_of_int (y - 2020) / 10) = Fin rq" "0 \<le> rq" "rq \<le> 1"
    using rounding_between[of r 0 0 1 1] assms(1) rounding_points[OF assms(1)] by blast
  then show ?thesis using assms(2) by (simp add: recency_score_def true_div_def)
qed

lemma recency_score_ends:
  "rounding r \<Longrightarrow> recency_score r 2020 = Inr (Fin 0) \<and> recency_score r 2030 = Inr (Fin 1)"
  using rounding_points[of r] by (simp add: recency_score_def true_div_def)

lemma rounding_ranged: "rounding ranged"
  unfolding rounding_def ranged_def by auto

lemma rounds_down_ranged: "rounds_down ranged 0.6 \<and> rounds_down ranged 0.15 \<and> rounds_down ranged 0.85"
proof -
  have "rounds_down ranged x" if "\<bar>x\<bar> \<le> 1" for x
  proof -
    have "ranged x = Fin x" using that by (auto simp: ranged_def)
    then show ?thesis unfolding rounds_down_def by blast
  qed
  then show ?thesis by simp
qed

subsection \<open>The cache\<close>

lemma sort_permutation: "mset xs = mset ys \<Longrightarrow> sort xs = sort (ys :: string list)"
  by (simp add: properties_for_sort)

lemma has_abstract_iff:
  "has_abstract i \<longleftrightarrow> (\<exists>a. item_abstract i = Some a \<and> 100 < length a)"
  by (auto simp: has_abstract_def get_or_def split: option.splits)

subsection \<open>What the retrieval loop and the synthesis leave alone\<close>

lemma fetch_fresh_frame:
  "map_option answers_dir (cache (fetch_fresh E n query st)) = map_option answers_dir (cache st)
   \<and> set (trace (fetch_fresh E n query st)) \<subseteq> set (trace st) \<union> retrieval_events"
  by (auto simp: fetch_fresh_def cache_papers_def retrieval_events_def Let_def
           split: prod.splits option.splits)

lemma query_step_cases:
  "query_step E uc n st query = fetch_fresh E n query st
   \<or> query_step E uc n st query
        = fetch_fresh E n query (st\<lparr>trace := trace st @ [PapersCacheRead query]\<rparr>)
   \<or> (\<exists>a s. query_step E uc n st query =
         st\<lparr>trace := trace st @ [PapersCacheRead query], all_papers := a, seen_paper_ids := s\<rparr>)"
  by (auto simp: query_step_def Let_def split: prod.splits option.splits)

lemma query_step_frame:
  "map_option answers_dir (cache (query_step E uc n st query)) = map_option answers_dir (cache st)
   \<and> set (trace (query_step E uc n st query)) \<subseteq> set (trace st) \<union> retrieval_events"
proof -
  let ?st1 = "st\<lparr>trace := trace st @ [PapersCacheRead query]\<rparr>"
  have a: "map_option answers_dir (cache ?st1) = map_option answers_dir (cache st)
     \<and> set (trace ?st1) \<subseteq> set (trace st) \<union> retrieval_events"
    by (auto simp: retrieval_events_def)
  consider "query_step E uc n st query = fetch_fresh E n query st"
    | "query_step E uc n st query = fetch_fresh E n query ?st1"
    | a s where "query_step E uc n st query = ?st1\<lparr>all_papers := a, seen_paper_ids := s\<rparr>"
    using query_step_cases[of E uc n st query] by auto
  then show ?thesis
  proof cases
    case 1
    then show ?thesis by (simp only: fetch_fresh_frame)
  next
    case 2
    then show ?thesis using fetch_fresh_frame[of E n query ?st1] a by auto
  next
    case 3
    then show ?thesis using a by simp
  qed
qed

lemma retrieve_frame:
  "map_option answers_dir (cache (retrieve E uc n queries st)) = map_option answers_dir (cache st)
   \<and> set (trace (retrieve E uc n queries st)) \<subseteq> set (trace st) \<union> retrieval_events"
  unfolding retrieve_def
proof (induction queries arbitrary: st)
  case Nil
  show ?case by simp
next
  case (Cons query queries)
  show ?case using Cons[of "query_step E uc n st query"] query_step_frame[of E uc n st query]
    by auto
qed

lemma synthesize_no_ids:
  "synthesize E st uq queries detect tops [] =
     (case (if detect \<and> 2 \<le> length tops
            then (case detect_contradictions E tops of
                    Inl e \<Rightarrow> Inl e | Inr analysis \<Rightarrow> Inr (Some analysis))
            else Inr None) of
        Inl e \<Rightarrow> (Inl e, cache st, trace st @ [DetectContradictions])
      | Inr contradictions \<Rightarrow>
          (case synthesize_findings E uq tops contradictions of
             Inl e \<Rightarrow> Inl e
           | Inr answer \<Rightarrow>
               Inr [(''question'', PyStr uq),
                    (''queries_used'', PyStrList queries),
                    (''papers_analyzed'', PyInt (int (length (all_papers st)))),
                    (''papers_used'', PyInt (int (length tops))),
                    (''papers'', PyPapers tops),
                    (''contradictions'',
                       (case contradictions of
                          None \<Rightarrow> PyNone
                        | Some analysis \<Rightarrow> PyDict [(''analysis'', PyStr analysis)])),
                    (''answer'', PyStr answer),
                    (''from_cache'', PyBool False)],
           cache st,
           trace st @ (if detect \<and> 2 \<le> length tops then [DetectContradictions] else [])
             @ [Synthesize]))"
  by (auto simp: synthesize_def Let_def split: sum.splits option.splits)

lemma answer_from_no_ids:
  assumes "\<forall>p \<in> set tops. paper_id p = []"
  shows "answer_from E st uq queries detect uc tops = synthesize E st uq queries detect tops []"
proof -
  have "filter (\<lambda>p. paper_id p \<noteq> []) tops = []" using assms by (simp add: filter_empty_conv)
  then show ?thesis by (simp add: answer_from_def)
qed

section \<open>The claims\<close>

text \<open>
  C1, as stated, fails. With \<open>top_k = -1\<close> the slice drops the last paper, so two papers
  give a list of length 1, not \<open>min(top_k, len(papers))\<close>. With embeddings whose squares
  overflow, every similarity and every score is NaN, and a list of NaN scores is not
  descending. With embeddings of different lengths the call raises ValueError.
\<close>

theorem rerank_papers_counterexample:
  "rerank_papers ranged zero_embedding ''question''
      [sample_paper ''A'' 0 2020, sample_paper ''B'' 0 2020] (- 1)
     = Inr [sample_paper ''A'' 0 2020\<lparr>embedding := Some [Fin 0], relevance_score := Fin 0\<rparr>]
   \<and> min (- 1) (int (length [sample_paper ''A'' 0 2020, sample_paper ''B'' 0 2020])) = - 1
   \<and> rerank_papers ranged big_embedding ''question''
        [sample_paper ''A'' 0 2020, sample_paper ''B'' 0 2020] 8
     = Inr [sample_paper ''A'' 0 2020\<lparr>embedding := Some [Fin (2 ^ 700)], relevance_score := NaN\<rparr>,
            sample_paper ''B'' 0 2020\<lparr>embedding := Some [Fin (2 ^ 700)], relevance_score := NaN\<rparr>]
   \<and> \<not> fl_le NaN NaN
   \<and> rerank_papers ranged uneven_embedding ''question'' [sample_paper ''A'' 0 2020] 8
     = Inl ValueError"
  by (simp add: rerank_defs big_embedding_def uneven_embedding_def)

text \<open>
  C1, amended. \<open>rerank_papers\<close> on an empty list returns the empty list and no error.
  When the scoring loop raises, \<open>rerank_papers\<close> raises the same exception. When
  \<open>top_k \<ge> 0\<close>, the scoring loop returns and no relevance score is NaN, then for every
  rounding, every embedding provider, every query and every list of papers the result
  has length \<open>min(top_k, len(papers))\<close> and is ordered descending by \<open>relevance_score\<close>,
  and the sort is stable: \<open>scored\<close> is the input, paper by paper and in the input order,
  with the embedding and the score assigned, and for every score the papers of the
  output that have it are an initial piece of the papers of \<open>scored\<close> that have it, in
  the same order.
\<close>

theorem rerank_papers_sorted_stable:
  "rerank_papers r ge q [] top_k = Inr [] \<and>
   (\<forall>e. papers \<noteq> [] \<and> score_papers r (ge q) (zip papers (map ge (map paper_text papers))) = Inl e
        \<longrightarrow> rerank_papers r ge q papers top_k = Inl e) \<and>
   (\<forall>scored. 0 \<le> top_k
      \<and> score_papers r (ge q) (zip papers (map ge (map paper_text papers))) = Inr scored
      \<and> list_all (\<lambda>p. \<not> isnan (relevance_score p)) scored \<longrightarrow>
     (\<exists>out.
        map (\<lambda>p. p\<lparr>embedding := None, relevance_score := Fin 0\<rparr>) scored
          = map (\<lambda>p. p\<lparr>embedding := None, relevance_score := Fin 0\<rparr>) papers
      \<and> rerank_papers r ge q papers top_k = Inr out
      \<and> length out = min (nat top_k) (length papers)
      \<and> sorted_wrt (\<lambda>a b. fl_le (relevance_score b) (relevance_score a)) out
      \<and> (\<forall>s. prefix (filter (\<lambda>p. relevance_score p = s) out)
                      (filter (\<lambda>p. relevance_score p = s) scored))))"
proof (intro conjI allI impI)
  show "rerank_papers r ge q [] top_k = Inr []" by (simp add: rerank_papers_def)
next
  fix e
  assume "papers \<noteq> [] \<and> score_papers r (ge q) (zip papers (map ge (map paper_text papers))) = Inl e"
  then show "rerank_papers r ge q papers top_k = Inl e" by (simp add: rerank_papers_def)
next
  fix scored
  assume h: "0 \<le> top_k
      \<and> score_papers r (ge q) (zip papers (map ge (map paper_text papers))) = Inr scored
      \<and> list_all (\<lambda>p. \<not> isnan (relevance_score p)) scored"
  then have k: "0 \<le> top_k"
    and sc: "score_papers r (ge q) (zip papers (map ge (map paper_text papers))) = Inr scored"
    and fin: "list_all (\<lambda>p. \<not> isnan (relevance_score p)) scored"
    by auto
  have sc': "score_papers r (ge q) (zip papers (map (\<lambda>p. ge (paper_text p)) papers)) = Inr scored"
    using sc by (simp add: comp_def)
  have eq: "map (\<lambda>p. p\<lparr>embedding := None, relevance_score := Fin 0\<rparr>) scored
                 = map (\<lambda>p. p\<lparr>embedding := None, relevance_score := Fin 0\<rparr>) papers"
    using score_papers_shape[OF sc'] .
  define out where "out = take (nat top_k) (sort_desc scored)"
  have len: "length scored = length papers" using eq by (metis length_map)
  have r: "rerank_papers r ge q papers top_k = Inr out"
  proof (cases "papers = []")
    case True
    then have "scored = []" using len by simp
    then show ?thesis using True by (simp add: rerank_papers_def out_def sort_desc_def)
  next
    case False
    then show ?thesis using sc k by (simp add: rerank_papers_def out_def slice_to_nonneg)
  qed
  have l: "length out = min (nat top_k) (length papers)"
    by (simp add: out_def length_sort_desc len)
  have "\<forall>p \<in> set scored. \<not> isnan (relevance_score p)" using fin by (simp add: list_all_iff)
  then have s: "sorted_wrt (\<lambda>a b. fl_le (relevance_score b) (relevance_score a)) out"
    unfolding out_def by (intro sorted_wrt_take sorted_sort_desc)
  have st: "\<forall>s. prefix (filter (\<lambda>p. relevance_score p = s) out)
                       (filter (\<lambda>p. relevance_score p = s) scored)"
  proof
    fix s
    have "prefix (filter (\<lambda>p. relevance_score p = s) out)
                 (filter (\<lambda>p. relevance_score p = s) (sort_desc scored))"
      unfolding out_def by (intro filter_mono_prefix take_is_prefix)
    then show "prefix (filter (\<lambda>p. relevance_score p = s) out)
                      (filter (\<lambda>p. relevance_score p = s) scored)"
      by (simp add: filter_sort_desc)
  qed
  show "\<exists>out.
        map (\<lambda>p. p\<lparr>embedding := None, relevance_score := Fin 0\<rparr>) scored
          = map (\<lambda>p. p\<lparr>embedding := None, relevance_score := Fin 0\<rparr>) papers
      \<and> rerank_papers r ge q papers top_k = Inr out
      \<and> length out = min (nat top_k) (length papers)
      \<and> sorted_wrt (\<lambda>a b. fl_le (relevance_score b) (relevance_score a)) out
      \<and> (\<forall>s. prefix (filter (\<lambda>p. relevance_score p = s) out)
                      (filter (\<lambda>p. relevance_score p = s) scored))"
    using eq r l s st by blast
qed

text \<open>
  The theorem at three papers in the order A, B, C, where A and B have the score 0 and
  C the score 1/4: with \<open>top_k = 8\<close> the output is C, A, B, and with \<open>top_k = 2\<close> it is
  C, A.
\<close>

theorem rerank_papers_sorted_stable_witness:
  "rerank_papers ranged zero_embedding ''question''
      [sample_paper ''A'' 0 2020, sample_paper ''B'' 0 2020, sample_paper ''C'' 100 2020] 8
     = Inr [sample_paper ''C'' 100 2020\<lparr>embedding := Some [Fin 0], relevance_score := Fin (1/4)\<rparr>,
            sample_paper ''A'' 0 2020\<lparr>embedding := Some [Fin 0], relevance_score := Fin 0\<rparr>,
            sample_paper ''B'' 0 2020\<lparr>embedding := Some [Fin 0], relevance_score := Fin 0\<rparr>]
   \<and> rerank_papers ranged zero_embedding ''question''
      [sample_paper ''A'' 0 2020, sample_paper ''B'' 0 2020, sample_paper ''C'' 100 2020] 2
     = Inr [sample_paper ''C'' 100 2020\<lparr>embedding := Some [Fin 0], relevance_score := Fin (1/4)\<rparr>,
            sample_paper ''A'' 0 2020\<lparr>embedding := Some [Fin 0], relevance_score := Fin 0\<rparr>]"
  using rerank_papers_sorted_stable[of ranged zero_embedding "''question''" 8
            "[sample_paper ''A'' 0 2020, sample_paper ''B'' 0 2020, sample_paper ''C'' 100 2020]"]
        rerank_papers_sorted_stable[of ranged zero_embedding "''question''" 2
            "[sample_paper ''A'' 0 2020, sample_paper ''B'' 0 2020, sample_paper ''C'' 100 2020]"]
  by (simp add: rerank_defs)

text \<open>
  C2, as stated, fails. The recency term has no upper cut-off: a paper of the year 2040
  with 100 citations and similarity 1 satisfies the hypotheses of the claim, its recency
  term is 0.3, above 0.15, and the score that \<open>rerank_papers\<close> stores is 1.15, above 1.0.
  And for a citation count beyond the range of the floats, such as \<open>10 ^ 400\<close>, the
  division raises OverflowError and no score is computed.
\<close>

theorem relevance_bound_counterexample:
  "(0::int) \<le> 100 \<and> (2020::int) \<le> 2040
   \<and> cosine_similarity ranged (unit_embedding ''question'')
        (unit_embedding (paper_text (sample_paper ''A'' 100 2040))) = Inr (Fin 1)
   \<and> rerank_papers ranged unit_embedding ''question'' [sample_paper ''A'' 100 2040] 8
     = Inr [sample_paper ''A'' 100 2040\<lparr>embedding := Some [Fin 1], relevance_score := Fin (23/20)\<rparr>]
   \<and> \<not> fl_le (Fin (23/20)) (Fin 1)
   \<and> fl_mul ranged (ranged 0.15) (Fin 2) = Fin (3/10) \<and> \<not> (3/10 \<le> (0.15::real))
   \<and> rerank_papers ranged zero_embedding ''question'' [sample_paper ''A'' (10 ^ 400) 2020] 8
     = Inl OverflowError"
  by (simp add: rerank_defs unit_embedding_def)

text \<open>
  C2, amended. Every paper that \<open>rerank_papers\<close> returns is a paper of the input with its
  embedding and its score assigned, and the score is the float value of
  \<open>0.6 * similarity + 0.25 * min(citation_count / 100, 1.0) + 0.15 * recency\<close>, where
  \<open>similarity\<close> is the cosine similarity of the two embeddings and \<open>recency\<close> is
  \<open>(year - 2020) / 10\<close> from 2020 on. For a paper with \<open>citation_count \<ge> 0\<close>, a
  similarity in \<open>[-1, 1]\<close> and a year from 2020 to 2030, and for an arithmetic that
  rounds as binary64 does (see \<open>rounding\<close> and \<open>rounds_down\<close>), the citation term lies
  in \<open>[0, 0.25]\<close>, the recency term in \<open>[0, 0.15]\<close> and the score in \<open>[-0.6, 1.0]\<close>. The
  recency is 0 at the year 2020 and 1 at the year 2030.
\<close>

theorem relevance_score_bounds:
  assumes run: "rerank_papers r ge q papers top_k = Inr out" and mem: "p' \<in> set out"
  shows "(\<exists>p \<in> set papers. \<exists>sim cit rec.
      cosine_similarity r (ge q) (ge (paper_text p)) = Inr sim
    \<and> citation_score r (citation_count p) = Inr cit
    \<and> recency_score r (year p) = Inr rec
    \<and> p' = p\<lparr>embedding := Some (ge (paper_text p)), relevance_score := blend r sim cit rec\<rparr>
    \<and> relevance_score p'
        = fl_add r (fl_add r (fl_mul r (r 0.6) sim) (fl_mul r (r 0.25) cit))
                   (fl_mul r (r 0.15) rec)
    \<and> (rounding r \<and> rounds_down r 0.6 \<and> rounds_down r 0.15 \<and> rounds_down r 0.85
        \<and> 0 \<le> citation_count p \<and> 2020 \<le> year p \<and> year p \<le> 2030
        \<and> (\<exists>s. sim = Fin s \<and> -1 \<le> s \<and> s \<le> 1) \<longrightarrow>
        (\<exists>cq rq ct rt v.
            r (real_of_int (citation_count p) / 100) = Fin cq \<and> cit = Fin (min cq 1)
          \<and> r (real_of_int (year p - 2020) / 10) = Fin rq \<and> rec = Fin rq
          \<and> fl_mul r (r 0.25) cit = Fin ct \<and> 0 \<le> ct \<and> ct \<le> 0.25
          \<and> fl_mul r (r 0.15) rec = Fin rt \<and> 0 \<le> rt \<and> rt \<le> 0.15
          \<and> relevance_score p' = Fin v \<and> -0.6 \<le> v \<and> v \<le> 1)))
   \<and> (rounding r \<longrightarrow> recency_score r 2020 = Inr (Fin 0) \<and> recency_score r 2030 = Inr (Fin 1))"
proof (intro conjI impI)
  have ne: "papers \<noteq> []" using run mem by (auto simp: rerank_papers_def)
  obtain scored
    where sc: "score_papers r (ge q) (zip papers (map ge (map paper_text papers))) = Inr scored"
      and out: "out = slice_to top_k (sort_desc scored)"
    using rerank_papers_scored[OF ne run] by blast
  have sc': "score_papers r (ge q) (zip papers (map (\<lambda>p. ge (paper_text p)) papers)) = Inr scored"
    using sc by (simp add: comp_def)
  have "p' \<in> set scored" using mem out set_slice_to[of top_k "sort_desc scored"]
    by (auto simp: set_sort_desc)
  then obtain p sim cit rec where p: "p \<in> set papers"
    and cs: "cosine_similarity r (ge q) (ge (paper_text p)) = Inr sim"
    and ci: "citation_score r (citation_count p) = Inr cit"
    and re: "recency_score r (year p) = Inr rec"
    and p': "p' = p\<lparr>embedding := Some (ge (paper_text p)), relevance_score := blend r sim cit rec\<rparr>"
    using score_papers_member[OF sc'] by blast
  have formula: "relevance_score p'
        = fl_add r (fl_add r (fl_mul r (r 0.6) sim) (fl_mul r (r 0.25) cit))
                   (fl_mul r (r 0.15) rec)"
    using p' by (simp add: blend_def)
  have bounds: "\<exists>cq rq ct rt v.
            r (real_of_int (citation_count p) / 100) = Fin cq \<and> cit = Fin (min cq 1)
          \<and> r (real_of_int (year p - 2020) / 10) = Fin rq \<and> rec = Fin rq
          \<and> fl_mul r (r 0.25) cit = Fin ct \<and> 0 \<le> ct \<and> ct \<le> 0.25
          \<and> fl_mul r (r 0.15) rec = Fin rt \<and> 0 \<le> rt \<and> rt \<le> 0.15
          \<and> relevance_score p' = Fin v \<and> -0.6 \<le> v \<and> v \<le> 1"
    if h: "rounding r \<and> rounds_down r 0.6 \<and> rounds_down r 0.15 \<and> rounds_down r 0.85
        \<and> 0 \<le> citation_count p \<and> 2020 \<le> year p \<and> year p \<le> 2030
        \<and> (\<exists>s. sim = Fin s \<and> -1 \<le> s \<and> s \<le> 1)"
  proof -
    from h obtain s where s: "sim = Fin s" "-1 \<le> s" "s \<le> 1" by blast
    from h have R: "rounding r" by simp
    obtain cq where cq: "r (real_of_int (citation_count p) / 100) = Fin cq"
      "cit = Fin (min cq 1)" "0 \<le> min cq 1" "min cq 1 \<le> 1"
      using citation_score_range[OF R _ ci] h by blast
    obtain rq where rq: "recency_score r (year p) = Inr (Fin rq)"
      "r (real_of_int (year p - 2020) / 10) = Fin rq" "0 \<le> rq" "rq \<le> 1"
      using recency_score_range[OF R] h by blast
    have rec: "rec = Fin rq" using re rq(1) by simp
    obtain ct rt v where
      "fl_mul r (r 0.25) (Fin (min cq 1)) = Fin ct" "0 \<le> ct" "ct \<le> 0.25"
      "fl_mul r (r 0.15) (Fin rq) = Fin rt" "0 \<le> rt" "rt \<le> 0.15"
      "blend r (Fin s) (Fin (min cq 1)) (Fin rq) = Fin v" "-0.6 \<le> v" "v \<le> 1"
      using blend_bounds[OF R _ _ _ s(2,3) cq(3,4) rq(3,4)] h by blast
    then show ?thesis using cq(1,2) rq(2) rec s(1) p' by auto
  qed
  show "\<exists>p \<in> set papers. \<exists>sim cit rec.
      cosine_similarity r (ge q) (ge (paper_text p)) = Inr sim
    \<and> citation_score r (citation_count p) = Inr cit
    \<and> recency_score r (year p) = Inr rec
    \<and> p' = p\<lparr>embedding := Some (ge (paper_text p)), relevance_score := blend r sim cit rec\<rparr>
    \<and> relevance_score p'
        = fl_add r (fl_add r (fl_mul r (r 0.6) sim) (fl_mul r (r 0.25) cit))
                   (fl_mul r (r 0.15) rec)
    \<and> (rounding r \<and> rounds_down r 0.6 \<and> rounds_down r 0.15 \<and> rounds_down r 0.85
        \<and> 0 \<le> citation_count p \<and> 2020 \<le> year p \<and> year p \<le> 2030
        \<and> (\<exists>s. sim = Fin s \<and> -1 \<le> s \<and> s \<le> 1) \<longrightarrow>
        (\<exists>cq rq ct rt v.
            r (real_of_int (citation_count p) / 100) = Fin cq \<and> cit = Fin (min cq 1)
          \<and> r (real_of_int (year p - 2020) / 10) = Fin rq \<and> rec = Fin rq
          \<and> fl_mul r (r 0.25) cit = Fin ct \<and> 0 \<le> ct \<and> ct \<le> 0.25
          \<and> fl_mul r (r 0.15) rec = Fin rt \<and> 0 \<le> rt \<and> rt \<le> 0.15
          \<and> relevance_score p' = Fin v \<and> -0.6 \<le> v \<and> v \<le> 1))"
    using p cs ci re p' formula bounds by blast
next
  assume "rounding r"
  then show "recency_score r 2020 = Inr (Fin 0)" using recency_score_ends by blast
next
  assume "rounding r"
  then show "recency_score r 2030 = Inr (Fin 1)" using recency_score_ends by blast
qed

text \<open>
  The theorem at a paper of the year 2020 with 100 citations and similarity 0: the
  stored score is 1/4.
\<close>

theorem relevance_score_bounds_witness:
  "rerank_papers ranged zero_embedding ''question'' [sample_paper ''C'' 100 2020] 8
     = Inr [sample_paper ''C'' 100 2020\<lparr>embedding := Some [Fin 0], relevance_score := Fin (1/4)\<rparr>]
   \<and> (- 0.6 :: real) \<le> 1/4 \<and> (1/4 :: real) \<le> 1"
proof -
  have h1: "rerank_papers ranged zero_embedding ''question'' [sample_paper ''C'' 100 2020] 8
     = Inr [sample_paper ''C'' 100 2020\<lparr>embedding := Some [Fin 0], relevance_score := Fin (1/4)\<rparr>]"
    by (simp add: rerank_defs)
  have h2: "sample_paper ''C'' 100 2020\<lparr>embedding := Some [Fin 0], relevance_score := Fin (1/4)\<rparr>
     \<in> set [sample_paper ''C'' 100 2020\<lparr>embedding := Some [Fin 0], relevance_score := Fin (1/4)\<rparr>]"
    by simp
  show ?thesis
    using relevance_score_bounds[OF h1 h2] rounding_ranged rounds_down_ranged h1
    by (auto simp: sample_paper_def)
qed

text \<open>
  C3. The code breaks the claim: \<open>_cosine_similarity\<close> tests its arguments with
  \<open>np.isnan\<close> only, so an infinite component passes the check of invalid values. For the
  vectors \<open>[inf]\<close> and \<open>[1.0]\<close> the dot product and the product of the norms are both
  infinite, and the function returns their quotient, NaN, where the claim says 0. This
  holds whatever the rounding.
\<close>

theorem cosine_similarity_infinity_is_nan:
  "cosine_similarity r [PInf] [Fin 1] = Inr NaN"
  using inf_quotient[of r "np_norm r [Fin 1]"]
  by (simp add: cosine_similarity_def np_dot_def fl_sum_def inf_times_def Let_def
        np_norm_def[of r "[PInf]"])

text \<open>
  C4. After \<open>cache_answer(question, ids, answer)\<close>, \<open>get_cached_answer(question, ids')\<close>
  returns that answer for every permutation \<open>ids'\<close> of \<open>ids\<close>, whatever the hash and
  the earlier content of the cache: both paths sort the ids before hashing.
\<close>

theorem answer_cache_order_independent:
  "mset ids' = mset ids \<Longrightarrow>
   cache_input question ids' = cache_input question ids
   \<and> get_cached_answer h (cache_answer h c question ids answer) question ids' = Some answer"
  using sort_permutation[of ids' ids]
  by (simp add: get_cached_answer_def cache_answer_def cache_input_def)

theorem answer_cache_order_independent_witness:
  "mset [''p2'', ''p1''] = mset [''p1'', ''p2'']
   \<and> get_cached_answer id (cache_answer id empty_cache ''question'' [''p1'', ''p2''] ''answer'')
        ''question'' [''p2'', ''p1''] = Some ''answer''"
  using answer_cache_order_independent[of "[''p2'', ''p1'']" "[''p1'', ''p2'']" "''question''"
          id empty_cache "''answer''"]
  by simp

text \<open>
  C5, as stated, fails: \<open>cache_papers\<close> does not write the embedding, so a paper that
  has one comes back without it.
\<close>

theorem papers_roundtrip_counterexample:
  "map_option (map from_dict)
     (get_cached_papers id (cache_papers id empty_cache ''query'' [paper_with_embedding])
        ''query'')
   \<noteq> Some [paper_with_embedding]"
  by (simp add: get_cached_papers_def cache_papers_def empty_cache_def from_dict_def
        to_dict_def paper_with_embedding_def)

text \<open>
  C5, amended: \<open>cache_papers(q, P)\<close> followed by \<open>get_cached_papers(q)\<close> and the
  reconstruction \<open>Paper(**paper_dict)\<close> returns the papers of \<open>P\<close> in the original order,
  each with its title, abstract, year, authors, citation count, url, paper id, summary
  and relevance score preserved and with its embedding reset to \<open>None\<close>.
\<close>

theorem papers_roundtrip_without_embedding:
  "map_option (map from_dict) (get_cached_papers h (cache_papers h c q P) q)
     = Some (map (\<lambda>p. p\<lparr>embedding := None\<rparr>) P)"
  by (simp add: get_cached_papers_def cache_papers_def from_dict_def to_dict_def comp_def)

text \<open>
  C6. The code breaks the claim: the loop writes \<open>new_papers\<close>, the papers that passed
  the deduplication, not the papers the search returned. With two queries that both miss
  the cache, where the search returns paper A for the first and papers A and B for the
  second, the entry written for the second query holds B alone, and a later run that
  issues only the second query reads B alone from the cache.
\<close>

theorem cache_entry_only_new_papers:
  "search_papers search_shared ''q2'' 15
     = [paper_of_item (item ''A'' ''Paper A''), paper_of_item (item ''B'' ''Paper B'')]
   \<and> (case cache (retrieve (fixed_env search_shared) True 15 [''q1'', ''q2'']
                     (start (Some empty_cache))) of
        None \<Rightarrow> None
      | Some c \<Rightarrow> get_cached_papers id c ''q2'')
     = Some [to_dict (paper_of_item (item ''B'' ''Paper B''))]
   \<and> all_papers (retrieve (fixed_env search_shared) True 15 [''q2'']
        (start (cache (retrieve (fixed_env search_shared) True 15 [''q1'', ''q2'']
                         (start (Some empty_cache))))))
     = [paper_of_item (item ''B'' ''Paper B'')]"
  by (simp add: run_defs search_shared_def)

text \<open>
  C7. The code breaks the claim on the path of a cache hit, which merges by \<open>paper_id\<close>
  alone and records the empty id as seen. A first run finds two papers without id and
  with different titles, keeps both and caches both; a second run reads them from the
  cache and drops the second, although no paper with its title is in the merged list.
\<close>

theorem cached_merge_ignores_titles:
  "all_papers (retrieve (fixed_env search_no_ids) True 15 [''q1''] (start (Some empty_cache)))
     = [paper_of_item (item [] ''First''), paper_of_item (item [] ''Second'')]
   \<and> all_papers (retrieve (fixed_env search_no_ids) True 15 [''q1'']
        (start (cache (retrieve (fixed_env search_no_ids) True 15 [''q1'']
                         (start (Some empty_cache))))))
     = [paper_of_item (item [] ''First'')]
   \<and> paper_id (paper_of_item (item [] ''Second'')) = []
   \<and> title (paper_of_item (item [] ''Second''))
        \<notin> set (map title [paper_of_item (item [] ''First'')])"
  by (simp add: run_defs search_no_ids_def)

text \<open>
  C8. \<open>search_papers\<close> returns only papers whose abstract is longer than 100
  characters; on a request exception and on a status other than 200 it returns the
  empty list; on status 200 it returns, in the order of the response, exactly the
  records whose abstract exists and is longer than 100 characters.
\<close>

theorem search_papers_filter:
  "(\<forall>p \<in> set (search_papers H q l). 100 < length (abstract p))
   \<and> (H q l = RequestException \<longrightarrow> search_papers H q l = [])
   \<and> (\<forall>st d. H q l = Response st d \<and> st \<noteq> 200 \<longrightarrow> search_papers H q l = [])
   \<and> (\<forall>d. H q l = Response 200 d \<longrightarrow>
         search_papers H q l =
           map paper_of_item
             (filter (\<lambda>i. \<exists>a. item_abstract i = Some a \<and> 100 < length a) (get_or d [])))"
proof -
  have a: "\<forall>p \<in> set (search_papers H q l). 100 < length (abstract p)"
    by (auto simp: search_papers_def has_abstract_iff paper_of_item_def get_or_def
             split: http_result.splits)
  have b: "H q l = RequestException \<longrightarrow> search_papers H q l = []"
    by (simp add: search_papers_def)
  have c: "\<forall>st d. H q l = Response st d \<and> st \<noteq> 200 \<longrightarrow> search_papers H q l = []"
    by (simp add: search_papers_def)
  have d: "\<forall>d. H q l = Response 200 d \<longrightarrow> search_papers H q l =
        map paper_of_item
          (filter (\<lambda>i. \<exists>a. item_abstract i = Some a \<and> 100 < length a) (get_or d []))"
    by (simp add: search_papers_def has_abstract_iff[abs_def])
  show ?thesis using a b c d by blast
qed

text \<open>
  The theorem at a response with one abstract of 101 and one of 50 characters, and at
  the two failures.
\<close>

theorem search_papers_filter_witness:
  "search_papers search_mixed ''q1'' 15 = [paper_of_item (item ''A'' ''Paper A'')]
   \<and> length (abstract (paper_of_item (item ''A'' ''Paper A''))) = 101
   \<and> length (get_or (item_abstract short_item) []) = 50
   \<and> search_papers search_failing ''q1'' 15 = []
   \<and> search_papers search_failing ''q2'' 15 = []"
  using search_papers_filter[of search_mixed "''q1''" 15]
        search_papers_filter[of search_failing "''q1''" 15]
        search_papers_filter[of search_failing "''q2''" 15]
  by (simp add: search_mixed_def search_failing_def get_or_def item_def short_item_def
        paper_of_item_def)

text \<open>
  C9. The code breaks the claim: the dictionary returned when no paper was found has
  seven keys and no \<open>from_cache\<close>, while the other two returns of \<open>answer_question\<close> have
  it.
\<close>

theorem empty_result_lacks_from_cache:
  "fst (answer_question (fixed_env search_none) (Some empty_cache) ''question'' 15 True 8 True)
     = Inr [(''question'', PyStr ''question''),
            (''queries_used'', PyStrList [''q1'', ''q2'']),
            (''papers_analyzed'', PyInt 0),
            (''papers_used'', PyInt 0),
            (''papers'', PyPapers []),
            (''contradictions'', PyNone),
            (''answer'',
               PyStr ''No papers found. Try rephrasing your question or broadening the scope.'')]
   \<and> (case fst (answer_question (fixed_env search_none) (Some empty_cache)
                   ''question'' 15 True 8 True) of
        Inl e \<Rightarrow> None
      | Inr res \<Rightarrow> Some (map_of res ''from_cache''))
     = Some None"
  by (simp add: answer_question_def run_defs search_none_def)

text \<open>
  C10. In a run of \<open>answer_question\<close> that reaches the reranking and in which every
  top-ranked paper has an empty \<open>paper_id\<close>, the answer cache is neither read nor
  written and the answers directory is as before the run. The outcome is that of a
  fresh synthesis: the exception of \<open>detect_contradictions\<close>, when that is called and
  raises; otherwise the exception of \<open>synthesize_findings\<close> on the question, the top
  papers and the analysis, or the dictionary with the answer that this call returns and
  with \<open>from_cache\<close> false. The synthesis is called unless the contradiction detection
  raised, and when the calls to the language model do not raise, a dictionary is
  returned.
\<close>

theorem no_ids_skips_answer_cache:
  assumes q: "generate_search_queries E uq = Inr queries"
      and st: "retrieve E uc n queries
                 \<lparr>all_papers = [], seen_paper_ids = {}, cache = bc,
                  trace = [GenerateQueries]\<rparr> = st"
      and ne: "all_papers st \<noteq> []"
      and rr: "rerank_papers (rnd E) (get_embedding E) uq (all_papers st) k = Inr tops"
      and ids: "\<forall>p \<in> set tops. paper_id p = []"
  shows "\<exists>res c tr. answer_question E bc uq n detect k uc = (res, c, tr)
      \<and> AnswerCacheRead \<notin> set tr \<and> AnswerCacheWrite \<notin> set tr
      \<and> map_option answers_dir c = map_option answers_dir bc
      \<and> res =
          (case (if detect \<and> 2 \<le> length tops
                 then (case detect_contradictions E tops of
                         Inl e \<Rightarrow> Inl e | Inr analysis \<Rightarrow> Inr (Some analysis))
                 else Inr None) of
             Inl e \<Rightarrow> Inl e
           | Inr contradictions \<Rightarrow>
               (case synthesize_findings E uq tops contradictions of
                  Inl e \<Rightarrow> Inl e
                | Inr answer \<Rightarrow>
                    Inr [(''question'', PyStr uq),
                         (''queries_used'', PyStrList queries),
                         (''papers_analyzed'', PyInt (int (length (all_papers st)))),
                         (''papers_used'', PyInt (int (length tops))),
                         (''papers'', PyPapers tops),
                         (''contradictions'',
                            (case contradictions of
                               None \<Rightarrow> PyNone
                             | Some analysis \<Rightarrow> PyDict [(''analysis'', PyStr analysis)])),
                         (''answer'', PyStr answer),
                         (''from_cache'', PyBool False)]))
      \<and> (Synthesize \<in> set tr \<longleftrightarrow>
           \<not> (detect \<and> 2 \<le> length tops \<and> (\<exists>e. detect_contradictions E tops = Inl e)))
      \<and> (\<forall>d. res = Inr d \<longrightarrow>
            map_of d ''from_cache'' = Some (PyBool False) \<and> Synthesize \<in> set tr)
      \<and> ((\<forall>ps. \<exists>a. detect_contradictions E ps = Inr a)
           \<and> (\<forall>u ps c. \<exists>a. synthesize_findings E u ps c = Inr a) \<longrightarrow> (\<exists>d. res = Inr d))"
proof -
  let ?st0 = "\<lparr>all_papers = [], seen_paper_ids = {}, cache = bc, trace = [GenerateQueries]\<rparr>"
  let ?st1 = "st\<lparr>trace := trace st @ [Rerank]\<rparr>"
  have aq: "answer_question E bc uq n detect k uc = synthesize E ?st1 uq queries detect tops []"
    using q st ne rr answer_from_no_ids[OF ids] by (simp add: answer_question_def Let_def)
  have fr: "map_option answers_dir (cache st) = map_option answers_dir bc"
    and ft: "set (trace st) \<subseteq> {GenerateQueries} \<union> retrieval_events"
    using retrieve_frame[of E uc n queries ?st0] st by auto
  have nt: "AnswerCacheRead \<notin> set (trace st) \<and> AnswerCacheWrite \<notin> set (trace st)
            \<and> Synthesize \<notin> set (trace st)"
    using ft by (auto simp: retrieval_events_def)
  define ctr where "ctr =
     (if detect \<and> 2 \<le> length tops
      then (case detect_contradictions E tops of
              Inl e \<Rightarrow> Inl e | Inr analysis \<Rightarrow> Inr (Some analysis))
      else Inr None)"
  define res where "res =
     (case ctr of
        Inl e \<Rightarrow> Inl e
      | Inr contradictions \<Rightarrow>
          (case synthesize_findings E uq tops contradictions of
             Inl e \<Rightarrow> Inl e
           | Inr answer \<Rightarrow>
               Inr [(''question'', PyStr uq),
                    (''queries_used'', PyStrList queries),
                    (''papers_analyzed'', PyInt (int (length (all_papers st)))),
                    (''papers_used'', PyInt (int (length tops))),
                    (''papers'', PyPapers tops),
                    (''contradictions'',
                       (case contradictions of
                          None \<Rightarrow> PyNone
                        | Some analysis \<Rightarrow> PyDict [(''analysis'', PyStr analysis)])),
                    (''answer'', PyStr answer),
                    (''from_cache'', PyBool False)]))"
  define tr where "tr =
     trace st @ [Rerank] @ (if detect \<and> 2 \<le> length tops then [DetectContradictions] else [])
       @ (case ctr of Inl e \<Rightarrow> [] | Inr c \<Rightarrow> [Synthesize])"
  have sy: "answer_question E bc uq n detect k uc = (res, cache st, tr)"
    unfolding aq synthesize_no_ids res_def tr_def ctr_def
    by (auto split: sum.splits)
  have no: "AnswerCacheRead \<notin> set tr \<and> AnswerCacheWrite \<notin> set tr"
    using nt unfolding tr_def by (auto split: sum.splits)
  have called: "Synthesize \<in> set tr \<longleftrightarrow>
           \<not> (detect \<and> 2 \<le> length tops \<and> (\<exists>e. detect_contradictions E tops = Inl e))"
    using nt unfolding tr_def ctr_def by (auto split: sum.splits)
  have fc: "\<forall>d. res = Inr d \<longrightarrow>
            map_of d ''from_cache'' = Some (PyBool False) \<and> Synthesize \<in> set tr"
    unfolding res_def tr_def by (auto split: sum.splits)
  have tot: "(\<forall>ps. \<exists>a. detect_contradictions E ps = Inr a)
           \<and> (\<forall>u ps c. \<exists>a. synthesize_findings E u ps c = Inr a) \<longrightarrow> (\<exists>d. res = Inr d)"
  proof
    assume ok: "(\<forall>ps. \<exists>a. detect_contradictions E ps = Inr a)
           \<and> (\<forall>u ps c. \<exists>a. synthesize_findings E u ps c = Inr a)"
    then obtain a where "detect_contradictions E tops = Inr a" by blast
    then have "\<exists>c. ctr = Inr c" unfolding ctr_def by simp
    then obtain c where c: "ctr = Inr c" by blast
    obtain answer where "synthesize_findings E uq tops c = Inr answer" using ok by blast
    then show "\<exists>d. res = Inr d" unfolding res_def using c by simp
  qed
  show ?thesis
    using sy no fr called fc tot unfolding res_def ctr_def by blast
qed

text \<open>
  The theorem at a run whose two queries both find the same two papers without id: the
  answer is the one the language model gives for the question, the two reranked papers
  and the analysis; \<open>from_cache\<close> is false, the answers directory stays empty and the
  run makes no call to the answer cache.
\<close>

theorem no_ids_skips_answer_cache_witness:
  "fst (answer_question (fixed_env search_plain) (Some empty_cache) ''question'' 15 True 8 True)
     = Inr [(''question'', PyStr ''question''),
            (''queries_used'', PyStrList [''q1'', ''q2'']),
            (''papers_analyzed'', PyInt 2),
            (''papers_used'', PyInt 2),
            (''papers'', PyPapers
               [paper_of_item (plain_item ''Second'' 100)
                  \<lparr>embedding := Some [Fin 0], relevance_score := Fin (1/4)\<rparr>,
                paper_of_item (plain_item ''First'' 0)
                  \<lparr>embedding := Some [Fin 0], relevance_score := Fin 0\<rparr>]),
            (''contradictions'', PyDict [(''analysis'', PyStr ''Compared: SecondFirst'')]),
            (''answer'', PyStr ''Answer to question from SecondFirst / Compared: SecondFirst''),
            (''from_cache'', PyBool False)]
   \<and> map_option answers_dir
        (fst (snd (answer_question (fixed_env search_plain) (Some empty_cache)
                     ''question'' 15 True 8 True)))
     = Some Map.empty
   \<and> snd (snd (answer_question (fixed_env search_plain) (Some empty_cache)
                  ''question'' 15 True 8 True))
     = [GenerateQueries, PapersCacheRead ''q1'', SearchApi ''q1'', PapersCacheWrite ''q1'',
        Sleep, PapersCacheRead ''q2'', SearchApi ''q2'', Sleep, Rerank, DetectContradictions,
        Synthesize]"
proof -
  let ?E = "fixed_env search_plain"
  let ?st = "retrieve ?E True 15 [''q1'', ''q2'']
               \<lparr>all_papers = [], seen_paper_ids = {}, cache = Some empty_cache,
                trace = [GenerateQueries]\<rparr>"
  let ?tops = "[paper_of_item (plain_item ''Second'' 100)
                  \<lparr>embedding := Some [Fin 0], relevance_score := Fin (1/4)\<rparr>,
                paper_of_item (plain_item ''First'' 0)
                  \<lparr>embedding := Some [Fin 0], relevance_score := Fin 0\<rparr>]"
  have h1: "generate_search_queries ?E ''question'' = Inr [''q1'', ''q2'']"
    by (simp add: fixed_env_def)
  have h3: "all_papers ?st \<noteq> []"
    by (simp add: run_defs search_plain_def)
  have h4: "rerank_papers (rnd ?E) (get_embedding ?E) ''question'' (all_papers ?st) 8 = Inr ?tops"
    by (simp add: run_defs search_plain_def rerank_defs)
  have h5: "\<forall>p \<in> set ?tops. paper_id p = []"
    by (simp add: paper_of_item_def plain_item_def get_or_def)
  show ?thesis
    using no_ids_skips_answer_cache[OF h1 refl h3 h4 h5, of True]
    by (simp add: answer_question_def answer_from_def synthesize_def run_defs
          search_plain_def rerank_defs)
qed

end
